theory Spec2Isabelle
  imports Main "HOL-Library.Sublist"
begin

section \<open>Python string primitives used by \<^verbatim>\<open>ssh_cmd.py\<close>\<close>

text \<open>
  A Python \<^verbatim>\<open>str\<close> is modelled as a \<^typ>\<open>string\<close>. The script only compares
  characters with ASCII literals, concatenates, splits at a one-character separator and
  joins, so the UTF-8 encoding of a text behaves exactly as its sequence of code points.
\<close>

abbreviation NL :: char where
  "NL \<equiv> CHR 0x0A"

abbreviation QUOTE :: char where
  "QUOTE \<equiv> CHR 0x27"

text \<open>\<^verbatim>\<open>s.split(sep)\<close> for a separator of one character: one piece more than there are
  separators, and \<^verbatim>\<open>''.split(sep) == ['']\<close>.\<close>

fun str_split :: "char \<Rightarrow> string \<Rightarrow> string list" where
  "str_split sep [] = [[]]"
| "str_split sep (c # cs) =
     (if c = sep then [] # str_split sep cs
      else (case str_split sep cs of
              [] \<Rightarrow> [[c]]
            | l # ls \<Rightarrow> (c # l) # ls))"

text \<open>\<^verbatim>\<open>sep.join(xs)\<close>.\<close>

fun str_join :: "string \<Rightarrow> string list \<Rightarrow> string" where
  "str_join sep [] = []"
| "str_join sep [x] = x"
| "str_join sep (x # y # ys) = x @ sep @ str_join sep (y # ys)"

text \<open>\<^verbatim>\<open>s.startswith(p)\<close>.\<close>

definition startswith :: "string \<Rightarrow> string \<Rightarrow> bool" where
  "startswith s p = prefix p s"

section \<open>The SSH library and the process environment\<close>

text \<open>
  What a call raises: \<^verbatim>\<open>except Exception as e\<close> catches the instances of
  \<^verbatim>\<open>Exception\<close> and lets every other \<^verbatim>\<open>BaseException\<close> (such as
  \<^verbatim>\<open>KeyboardInterrupt\<close>) through. The string is \<^verbatim>\<open>str(e)\<close>.
\<close>

datatype raised = Exception string | NonException string

datatype 'a outcome = Returns 'a | Raises raised

text \<open>
  The three streams that \<^verbatim>\<open>exec_command\<close> hands back, as far as the script uses them:
  \<^verbatim>\<open>stdout.read().decode('utf-8', errors='replace')\<close>, the same for \<^verbatim>\<open>stderr\<close>
  (the lossy decoding itself never raises, the read may), and
  \<^verbatim>\<open>stdout.channel.recv_exit_status()\<close>.
\<close>

record streams =
  stdout_read :: "string outcome"
  stderr_read :: "string outcome"
  recv_exit_status :: "int outcome"

text \<open>
  The library client is a parameter of the model: \<^verbatim>\<open>connect(host, port, username,
  password, timeout)\<close> and \<^verbatim>\<open>exec_command(command, timeout, get_pty)\<close>, each
  returning or raising.
\<close>

record ssh_client =
  connect :: "string \<Rightarrow> nat \<Rightarrow> string \<Rightarrow> string \<Rightarrow> nat \<Rightarrow> unit outcome"
  exec_command :: "string \<Rightarrow> nat \<Rightarrow> bool \<Rightarrow> streams outcome"

text \<open>The calls made on the client, in order, and the text written to the two channels.\<close>

datatype event =
    is_Connect: Connect string nat string string nat
  | is_ExecCommand: ExecCommand string nat bool
  | is_Close: Close

record world =
  events :: "event list"
  sys_stdout :: string
  sys_stderr :: string

definition call :: "event \<Rightarrow> world \<Rightarrow> world" where
  "call e w = w\<lparr>events := events w @ [e]\<rparr>"

text \<open>\<^verbatim>\<open>print(s)\<close> and \<^verbatim>\<open>print(s, file=sys.stderr)\<close>: the text, then a newline.\<close>

definition print_stdout :: "string \<Rightarrow> world \<Rightarrow> world" where
  "print_stdout s w = w\<lparr>sys_stdout := sys_stdout w @ s @ [NL]\<rparr>"

definition print_stderr :: "string \<Rightarrow> world \<Rightarrow> world" where
  "print_stderr s w = w\<lparr>sys_stderr := sys_stderr w @ s @ [NL]\<rparr>"

section \<open>\<^verbatim>\<open>run_ssh_command\<close>\<close>

text \<open>The comprehension
  \<^verbatim>\<open>[l for l in s.split('\n') if not l.startswith('[sudo]')]\<close>, which the function applies
  to \<^verbatim>\<open>output\<close> and to \<^verbatim>\<open>error\<close>.\<close>

definition sudo_filtered :: "string \<Rightarrow> string list" where
  "sudo_filtered s = [l \<leftarrow> str_split NL s. \<not> startswith l ''[sudo]'']"

text \<open>Lines 14 to 15: the command that is executed.\<close>

definition escalate :: "bool \<Rightarrow> string \<Rightarrow> string \<Rightarrow> string" where
  "escalate use_sudo password command =
     (if use_sudo
      then ''echo '' @ [QUOTE] @ password @ [QUOTE] @ '' | sudo -S '' @ command
      else command)"

text \<open>Lines 22 to 25: \<^verbatim>\<open>if output:\<close>, filter, print.\<close>

definition report_output :: "string \<Rightarrow> world \<Rightarrow> world" where
  "report_output output w =
     (if output \<noteq> []
      then print_stdout (str_join [NL] (sudo_filtered output)) w
      else w)"

text \<open>Lines 26 to 29: \<^verbatim>\<open>if error:\<close>, filter, \<^verbatim>\<open>if lines:\<close>, print to
  \<^verbatim>\<open>sys.stderr\<close>.\<close>

definition report_error :: "string \<Rightarrow> world \<Rightarrow> world" where
  "report_error error w =
     (if error \<noteq> []
      then (let lines = sudo_filtered error in
            if lines \<noteq> []
            then print_stderr (str_join [NL] lines) w
            else w)
      else w)"

text \<open>Lines 19 to 31: read both streams, report them, fetch the exit status.\<close>

definition collect :: "streams \<Rightarrow> world \<Rightarrow> (raised + int) \<times> world" where
  "collect chan w =
     (case stdout_read chan of
        Raises e \<Rightarrow> (Inl e, w)
      | Returns output \<Rightarrow>
          (case stderr_read chan of
             Raises e \<Rightarrow> (Inl e, w)
           | Returns error \<Rightarrow>
               (let w' = report_error error (report_output output w) in
                case recv_exit_status chan of
                  Raises e \<Rightarrow> (Inl e, w')
                | Returns status \<Rightarrow> (Inr status, w'))))"

text \<open>The body of the \<^verbatim>\<open>try\<close> block (lines 12 to 31): the value returned or the
  exception raised, and the world it leaves.\<close>

definition try_block ::
  "ssh_client \<Rightarrow> string \<Rightarrow> string \<Rightarrow> string \<Rightarrow> string \<Rightarrow> bool \<Rightarrow> world
     \<Rightarrow> (raised + int) \<times> world" where
  "try_block client host username password command use_sudo w0 =
     (let w1 = call (Connect host 22 username password 30) w0 in
      case connect client host 22 username password 30 of
        Raises e \<Rightarrow> (Inl e, w1)
      | Returns _ \<Rightarrow>
          (let command' = escalate use_sudo password command;
               w2 = call (ExecCommand command' 120 use_sudo) w1 in
           case exec_command client command' 120 use_sudo of
             Raises e \<Rightarrow> (Inl e, w2)
           | Returns chan \<Rightarrow> collect chan w2))"

text \<open>The whole function: the \<^verbatim>\<open>except Exception\<close> handler prints and returns 1, and the
  \<^verbatim>\<open>finally\<close> clause closes the client on every path. \<open>Inl\<close> is an exception that
  leaves the function, \<open>Inr\<close> the value returned.\<close>

definition run_ssh_command ::
  "ssh_client \<Rightarrow> string \<Rightarrow> string \<Rightarrow> string \<Rightarrow> string \<Rightarrow> bool \<Rightarrow> world
     \<Rightarrow> (raised + int) \<times> world" where
  "run_ssh_command client host username password command use_sudo w0 =
     (case try_block client host username password command use_sudo w0 of
        (Inl (Exception msg), w) \<Rightarrow> (Inr 1, call Close (print_stderr (''Error: '' @ msg) w))
      | (r, w) \<Rightarrow> (r, call Close w))"

section \<open>The entry point\<close>

definition HOST :: string where "HOST = ''192.168.0.75''"
definition USER :: string where "USER = ''admin''"
definition PASS :: string where "PASS = ''admin''"

text \<open>The \<^verbatim>\<open>__main__\<close> block, on \<^verbatim>\<open>sys.argv\<close>; the result is the status given to
  \<^verbatim>\<open>sys.exit\<close>.\<close>

definition main :: "ssh_client \<Rightarrow> string list \<Rightarrow> world \<Rightarrow> (raised + int) \<times> world" where
  "main client argv w =
     (if length argv < 2
      then (Inr 1, print_stdout ''Usage: python ssh_cmd.py [--sudo] <command>'' w)
      else (let use_sudo = (''--sudo'' \<in> set argv);
                args = [a \<leftarrow> drop 1 argv. a \<noteq> ''--sudo''];
                command = str_join '' '' args
            in run_ssh_command client HOST USER PASS command use_sudo w))"

section \<open>Observations and example environments\<close>

text \<open>What an invocation adds to a channel: the text of the channel after it, without the
  text that was there before.\<close>

definition written_stdout :: "world \<Rightarrow> world \<Rightarrow> string" where
  "written_stdout w w' = drop (length (sys_stdout w)) (sys_stdout w')"

definition written_stderr :: "world \<Rightarrow> world \<Rightarrow> string" where
  "written_stderr w w' = drop (length (sys_stderr w)) (sys_stderr w')"

text \<open>The world before the script has done anything, and library clients with a fixed
  behaviour: a host that cannot be reached, a command that exceeds the execution timeout,
  three remote commands with prompts in their streams, a failure while reading either
  stream or fetching the exit status, and a failure whose description has two lines.\<close>

definition empty_world :: world where
  "empty_world = \<lparr>events = [], sys_stdout = [], sys_stderr = []\<rparr>"

definition unreachable_client :: ssh_client where
  "unreachable_client =
     \<lparr>connect = (\<lambda>host port username password timeout. Raises (Exception ''timed out'')),
      exec_command = (\<lambda>command timeout get_pty. Raises (Exception ''SSH session not active''))\<rparr>"

definition stalled_client :: ssh_client where
  "stalled_client =
     \<lparr>connect = (\<lambda>host port username password timeout. Returns ()),
      exec_command = (\<lambda>command timeout get_pty. Raises (Exception ''timed out''))\<rparr>"

definition prompt_client :: ssh_client where
  "prompt_client =
     \<lparr>connect = (\<lambda>host port username password timeout. Returns ()),
      exec_command = (\<lambda>command timeout get_pty. Returns
        \<lparr>stdout_read = Returns ''[sudo] password for admin: '',
         stderr_read = Returns (''[sudo] password for admin: '' @ [NL]),
         recv_exit_status = Returns 0\<rparr>)\<rparr>"

definition listing_client :: ssh_client where
  "listing_client =
     \<lparr>connect = (\<lambda>host port username password timeout. Returns ()),
      exec_command = (\<lambda>command timeout get_pty. Returns
        \<lparr>stdout_read = Returns (''[sudo] password for admin: '' @ [NL] @ ''a.txt'' @ [NL] @ ''b.txt''),
         stderr_read = Returns (''[sudo] password for admin: '' @ [NL] @ ''[sudo] try again''),
         recv_exit_status = Returns 0\<rparr>)\<rparr>"

definition noisy_client :: ssh_client where
  "noisy_client =
     \<lparr>connect = (\<lambda>host port username password timeout. Returns ()),
      exec_command = (\<lambda>command timeout get_pty. Returns
        \<lparr>stdout_read = Returns (''a.txt'' @ [NL] @ ''[sudo] x'' @ [NL] @ ''b.txt''),
         stderr_read = Returns (''[sudo] y'' @ [NL] @ ''ls: cannot access'' ),
         recv_exit_status = Returns 2\<rparr>)\<rparr>"

definition broken_stdout_client :: ssh_client where
  "broken_stdout_client =
     \<lparr>connect = (\<lambda>host port username password timeout. Returns ()),
      exec_command = (\<lambda>command timeout get_pty. Returns
        \<lparr>stdout_read = Raises (Exception ''timed out''),
         stderr_read = Returns ''warning'',
         recv_exit_status = Returns 0\<rparr>)\<rparr>"

definition broken_stderr_client :: ssh_client where
  "broken_stderr_client =
     \<lparr>connect = (\<lambda>host port username password timeout. Returns ()),
      exec_command = (\<lambda>command timeout get_pty. Returns
        \<lparr>stdout_read = Returns ''a.txt'',
         stderr_read = Raises (Exception ''timed out''),
         recv_exit_status = Returns 0\<rparr>)\<rparr>"

definition lost_status_client :: ssh_client where
  "lost_status_client =
     \<lparr>connect = (\<lambda>host port username password timeout. Returns ()),
      exec_command = (\<lambda>command timeout get_pty. Returns
        \<lparr>stdout_read = Returns ''a.txt'',
         stderr_read = Returns ''warning'',
         recv_exit_status = Raises (Exception ''Channel closed.'')\<rparr>)\<rparr>"

definition multiline_client :: ssh_client where
  "multiline_client =
     \<lparr>connect = (\<lambda>host port username password timeout.
                   Raises (Exception (''line1'' @ [NL] @ ''line2''))),
      exec_command = (\<lambda>command timeout get_pty. Raises (Exception ''SSH session not active''))\<rparr>"

section \<open>Splitting and joining\<close>

lemma str_split_not_Nil: "str_split sep s \<noteq> []"
  by (induction s) (auto split: list.splits)

lemma str_split_piece_no_sep: "l \<in> set (str_split sep s) \<Longrightarrow> sep \<notin> set l"
proof (induction s arbitrary: l)
  case Nil
  then show ?case by simp
next
  case (Cons c cs)
  show ?case
  proof (cases "c = sep")
    case True
    with Cons show ?thesis by auto
  next
    case False
    obtain p ps where ps: "str_split sep cs = p # ps"
      using str_split_not_Nil [of sep cs] by (cases "str_split sep cs") auto
    with False Cons.prems have "l = c # p \<or> l \<in> set ps" by auto
    then show ?thesis
    proof
      assume "l = c # p"
      moreover have "sep \<notin> set p" using Cons.IH [of p] ps by simp
      ultimately show ?thesis using False by auto
    next
      assume "l \<in> set ps"
      then show ?thesis using Cons.IH [of l] ps by simp
    qed
  qed
qed

lemma str_split_no_sep: "sep \<notin> set l \<Longrightarrow> str_split sep l = [l]"
  by (induction l) auto

lemma str_split_append_sep:
  "sep \<notin> set l \<Longrightarrow> str_split sep (l @ sep # r) = l # str_split sep r"
  by (induction l) auto

lemma str_split_join:
  "ls \<noteq> [] \<Longrightarrow> \<forall>l\<in>set ls. sep \<notin> set l \<Longrightarrow> str_split sep (str_join [sep] ls) = ls"
proof (induction "[sep]" ls rule: str_join.induct)
  case 1
  then show ?case by simp
next
  case (2 x)
  then show ?case by (simp add: str_split_no_sep)
next
  case (3 x y ys)
  then show ?case by (simp add: str_split_append_sep)
qed

lemma sudo_filtered_no_NL: "l \<in> set (sudo_filtered s) \<Longrightarrow> NL \<notin> set l"
  by (auto simp: sudo_filtered_def dest: str_split_piece_no_sep)

lemma sudo_filtered_no_prompt: "l \<in> set (sudo_filtered s) \<Longrightarrow> \<not> startswith l ''[sudo]''"
  by (simp add: sudo_filtered_def)

lemma sudo_filtered_join:
  "sudo_filtered (str_join [NL] (sudo_filtered s)) =
     (if sudo_filtered s = [] then [[]] else sudo_filtered s)"
proof (cases "sudo_filtered s = []")
  case True
  then show ?thesis by (simp add: sudo_filtered_def startswith_def)
next
  case False
  have "str_split NL (str_join [NL] (sudo_filtered s)) = sudo_filtered s"
    using False sudo_filtered_no_NL by (intro str_split_join) auto
  then have "sudo_filtered (str_join [NL] (sudo_filtered s)) =
      [l \<leftarrow> sudo_filtered s. \<not> startswith l ''[sudo]'']"
    by (simp add: sudo_filtered_def)
  also have "\<dots> = sudo_filtered s"
    by (simp add: sudo_filtered_def)
  finally show ?thesis using False by simp
qed

section \<open>The calls made by an invocation\<close>

lemma report_output_fields:
  "events (report_output out w) = events w"
  "sys_stderr (report_output out w) = sys_stderr w"
  "sys_stdout (report_output out w) =
     sys_stdout w @ (if out = [] then [] else str_join [NL] (sudo_filtered out) @ [NL])"
  by (simp_all add: report_output_def print_stdout_def)

lemma report_error_fields:
  "events (report_error err w) = events w"
  "sys_stdout (report_error err w) = sys_stdout w"
  "sys_stderr (report_error err w) =
     sys_stderr w @ (if err = [] \<or> sudo_filtered err = [] then []
                     else str_join [NL] (sudo_filtered err) @ [NL])"
  by (simp_all add: report_error_def print_stderr_def Let_def)

lemma events_collect: "events (snd (collect chan w)) = events w"
  by (simp add: collect_def Let_def report_output_fields report_error_fields
           split: outcome.split)

lemma events_try_block:
  "events (snd (try_block client h u pw cmd sudo w)) =
     events w @ Connect h 22 u pw 30 #
       (case connect client h 22 u pw 30 of
          Raises e \<Rightarrow> []
        | Returns x \<Rightarrow> [ExecCommand (escalate sudo pw cmd) 120 sudo])"
  by (simp add: try_block_def Let_def call_def events_collect split: outcome.split)

lemma run_ssh_command_cases:
  "run_ssh_command client h u pw cmd sudo w =
     (case fst (try_block client h u pw cmd sudo w) of
        Inl (Exception msg) \<Rightarrow>
          (Inr 1, call Close (print_stderr (''Error: '' @ msg)
                                (snd (try_block client h u pw cmd sudo w))))
      | Inl (NonException msg) \<Rightarrow>
          (Inl (NonException msg), call Close (snd (try_block client h u pw cmd sudo w)))
      | Inr n \<Rightarrow> (Inr n, call Close (snd (try_block client h u pw cmd sudo w))))"
  by (simp add: run_ssh_command_def split: prod.split sum.split raised.split)

lemma events_run_ssh_command:
  "events (snd (run_ssh_command client h u pw cmd sudo w)) =
     events (snd (try_block client h u pw cmd sudo w)) @ [Close]"
  by (simp add: run_ssh_command_cases call_def print_stderr_def
           split: sum.split raised.split)

lemma events_run_full:
  "events (snd (run_ssh_command client h u pw cmd sudo w)) =
     events w @ Connect h 22 u pw 30 #
       (case connect client h 22 u pw 30 of
          Raises e \<Rightarrow> []
        | Returns x \<Rightarrow> [ExecCommand (escalate sudo pw cmd) 120 sudo]) @ [Close]"
  by (simp add: events_run_ssh_command events_try_block)

section \<open>Command rewriting\<close>





section \<open>The connection\<close>


text \<open>
  Claim C7. When \<^verbatim>\<open>connect\<close> raises an exception, no command is executed (the calls of
  the invocation are \<^verbatim>\<open>connect\<close> and \<^verbatim>\<open>close\<close> only), the function returns 1, and
  the line \<^verbatim>\<open>Error: \<close> with the description of the exception is written to the error
  channel; nothing is written to the normal output.
\<close>

theorem connect_failure:
  assumes "connect client h 22 u pw 30 = Raises (Exception m)"
  shows "run_ssh_command client h u pw cmd sudo w =
    (Inr 1, w\<lparr>events := events w @ [Connect h 22 u pw 30, Close],
              sys_stderr := sys_stderr w @ ''Error: '' @ m @ [NL]\<rparr>)"
  using assms
  by (simp add: run_ssh_command_def try_block_def call_def print_stderr_def)

theorem connect_failure_witness:
  "connect unreachable_client HOST 22 USER PASS 30 = Raises (Exception ''timed out'')
   \<and> run_ssh_command unreachable_client HOST USER PASS ''ls'' False empty_world =
      (Inr 1, \<lparr>events = [Connect HOST 22 USER PASS 30, Close],
               sys_stdout = [],
               sys_stderr = ''Error: timed out'' @ [NL]\<rparr>)"
proof -
  have c: "connect unreachable_client HOST 22 USER PASS 30 = Raises (Exception ''timed out'')"
    by (simp add: unreachable_client_def)
  show ?thesis
    using c connect_failure [OF c, of "''ls''" False empty_world]
    by (simp add: empty_world_def)
qed

section \<open>Failures\<close>

text \<open>
  The \<^verbatim>\<open>try\<close> block raises exactly when one of the library calls does: \<^verbatim>\<open>connect\<close>,
  \<^verbatim>\<open>exec_command\<close>, reading either stream, or fetching the exit status, in this order.
\<close>

lemma fst_collect_raises:
  "fst (collect chan w) = Inl e \<longleftrightarrow>
     stdout_read chan = Raises e
     \<or> (\<exists>out. stdout_read chan = Returns out
           \<and> (stderr_read chan = Raises e
               \<or> (\<exists>err. stderr_read chan = Returns err \<and> recv_exit_status chan = Raises e)))"
  by (auto simp: collect_def Let_def split: outcome.splits)

lemma fst_try_block_raises:
  "fst (try_block client h u pw cmd sudo w) = Inl e \<longleftrightarrow>
     connect client h 22 u pw 30 = Raises e
     \<or> (connect client h 22 u pw 30 = Returns ()
         \<and> (exec_command client (escalate sudo pw cmd) 120 sudo = Raises e
             \<or> (\<exists>chan. exec_command client (escalate sudo pw cmd) 120 sudo = Returns chan
                   \<and> (stdout_read chan = Raises e
                       \<or> (\<exists>out. stdout_read chan = Returns out
                             \<and> (stderr_read chan = Raises e
                                 \<or> (\<exists>err. stderr_read chan = Returns err
                                       \<and> recv_exit_status chan = Raises e)))))))"
  by (auto simp: try_block_def Let_def fst_collect_raises split: outcome.splits)

text \<open>Nothing has been written yet when \<^verbatim>\<open>connect\<close>, \<^verbatim>\<open>exec_command\<close> or the reading of
  a stream raises; only a failure of \<^verbatim>\<open>recv_exit_status\<close> comes after the two reports.\<close>

lemma try_block_silent_before_reports:
  assumes "connect client h 22 u pw 30 = Raises e
     \<or> exec_command client (escalate sudo pw cmd) 120 sudo = Raises e
     \<or> (\<exists>chan. exec_command client (escalate sudo pw cmd) 120 sudo = Returns chan
           \<and> (stdout_read chan = Raises e \<or> stderr_read chan = Raises e))"
  shows "sys_stdout (snd (try_block client h u pw cmd sudo w)) = sys_stdout w
    \<and> sys_stderr (snd (try_block client h u pw cmd sudo w)) = sys_stderr w"
  using assms
  by (auto simp: try_block_def collect_def Let_def call_def split: outcome.splits)

lemma str_split_terminated:
  "sep \<notin> set l \<Longrightarrow> str_split sep (l @ [sep]) = [l, []]"
  by (simp add: str_split_append_sep)

text \<open>
  What the \<^verbatim>\<open>try\<close> block yields at each point where a library call raises.
\<close>

lemma try_block_connect_raises:
  "connect client h 22 u pw 30 = Raises e \<Longrightarrow>
     try_block client h u pw cmd sudo w = (Inl e, call (Connect h 22 u pw 30) w)"
  by (simp add: try_block_def)

lemma try_block_exec_raises:
  "connect client h 22 u pw 30 = Returns () \<Longrightarrow>
   exec_command client (escalate sudo pw cmd) 120 sudo = Raises e \<Longrightarrow>
     try_block client h u pw cmd sudo w =
       (Inl e, call (ExecCommand (escalate sudo pw cmd) 120 sudo) (call (Connect h 22 u pw 30) w))"
  by (simp add: try_block_def Let_def)

lemma try_block_read_raises:
  "connect client h 22 u pw 30 = Returns () \<Longrightarrow>
   exec_command client (escalate sudo pw cmd) 120 sudo = Returns chan \<Longrightarrow>
   stdout_read chan = Raises e \<or> (stdout_read chan = Returns out \<and> stderr_read chan = Raises e) \<Longrightarrow>
     try_block client h u pw cmd sudo w =
       (Inl e, call (ExecCommand (escalate sudo pw cmd) 120 sudo) (call (Connect h 22 u pw 30) w))"
  by (auto simp: try_block_def collect_def Let_def)

lemma try_block_status_raises:
  "connect client h 22 u pw 30 = Returns () \<Longrightarrow>
   exec_command client (escalate sudo pw cmd) 120 sudo = Returns chan \<Longrightarrow>
   stdout_read chan = Returns out \<Longrightarrow>
   stderr_read chan = Returns err \<Longrightarrow>
   recv_exit_status chan = Raises e \<Longrightarrow>
     try_block client h u pw cmd sudo w =
       (Inl e, report_error err (report_output out
          (call (ExecCommand (escalate sudo pw cmd) 120 sudo) (call (Connect h 22 u pw 30) w))))"
  by (simp add: try_block_def collect_def Let_def)

text \<open>
  Claim C5, as the code has it. Whenever \<^verbatim>\<open>connect\<close>, \<^verbatim>\<open>exec_command\<close>, the reading of
  either stream or \<^verbatim>\<open>recv_exit_status\<close> raises an instance of \<^verbatim>\<open>Exception\<close> (a
  connection error, an authentication failure, either timeout, a channel failure), the
  function catches it, returns the fixed status 1 instead of a remote exit status, makes no
  further call but \<^verbatim>\<open>close\<close>, and writes with one \<^verbatim>\<open>print\<close> the text \<^verbatim>\<open>Error: \<close>
  followed by the description and a newline to the error channel. Nothing else is written,
  except that a failure of \<^verbatim>\<open>recv_exit_status\<close> comes after the two streams have been
  reported. The text written by the handler is exactly one line when the description has
  no line break.
\<close>

theorem exception_reported:
  "(connect client h 22 u pw 30 = Raises (Exception m) \<longrightarrow>
      run_ssh_command client h u pw cmd sudo w =
        (Inr 1, w\<lparr>events := events w @ [Connect h 22 u pw 30, Close],
                  sys_stderr := sys_stderr w @ ''Error: '' @ m @ [NL]\<rparr>))
   \<and> (connect client h 22 u pw 30 = Returns ()
        \<and> exec_command client (escalate sudo pw cmd) 120 sudo = Raises (Exception m) \<longrightarrow>
      run_ssh_command client h u pw cmd sudo w =
        (Inr 1, w\<lparr>events := events w @ [Connect h 22 u pw 30,
                                           ExecCommand (escalate sudo pw cmd) 120 sudo, Close],
                  sys_stderr := sys_stderr w @ ''Error: '' @ m @ [NL]\<rparr>))
   \<and> (connect client h 22 u pw 30 = Returns ()
        \<and> exec_command client (escalate sudo pw cmd) 120 sudo = Returns chan
        \<and> (stdout_read chan = Raises (Exception m)
            \<or> (stdout_read chan = Returns out \<and> stderr_read chan = Raises (Exception m))) \<longrightarrow>
      run_ssh_command client h u pw cmd sudo w =
        (Inr 1, w\<lparr>events := events w @ [Connect h 22 u pw 30,
                                           ExecCommand (escalate sudo pw cmd) 120 sudo, Close],
                  sys_stderr := sys_stderr w @ ''Error: '' @ m @ [NL]\<rparr>))
   \<and> (connect client h 22 u pw 30 = Returns ()
        \<and> exec_command client (escalate sudo pw cmd) 120 sudo = Returns chan
        \<and> stdout_read chan = Returns out
        \<and> stderr_read chan = Returns err
        \<and> recv_exit_status chan = Raises (Exception m) \<longrightarrow>
      run_ssh_command client h u pw cmd sudo w =
        (Inr 1, w\<lparr>events := events w @ [Connect h 22 u pw 30,
                                           ExecCommand (escalate sudo pw cmd) 120 sudo, Close],
                  sys_stdout := sys_stdout w @
                    (if out = [] then [] else str_join [NL] (sudo_filtered out) @ [NL]),
                  sys_stderr := sys_stderr w @
                    (if err = [] \<or> sudo_filtered err = [] then []
                     else str_join [NL] (sudo_filtered err) @ [NL]) @
                    ''Error: '' @ m @ [NL]\<rparr>))
   \<and> (NL \<notin> set m \<longrightarrow> str_split NL (''Error: '' @ m @ [NL]) = [''Error: '' @ m, []])"
proof -
  have a: "connect client h 22 u pw 30 = Raises (Exception m) \<longrightarrow>
      run_ssh_command client h u pw cmd sudo w =
        (Inr 1, w\<lparr>events := events w @ [Connect h 22 u pw 30, Close],
                  sys_stderr := sys_stderr w @ ''Error: '' @ m @ [NL]\<rparr>)"
    by (simp add: run_ssh_command_def try_block_connect_raises call_def print_stderr_def)
  have b: "connect client h 22 u pw 30 = Returns ()
        \<and> exec_command client (escalate sudo pw cmd) 120 sudo = Raises (Exception m) \<longrightarrow>
      run_ssh_command client h u pw cmd sudo w =
        (Inr 1, w\<lparr>events := events w @ [Connect h 22 u pw 30,
                                           ExecCommand (escalate sudo pw cmd) 120 sudo, Close],
                  sys_stderr := sys_stderr w @ ''Error: '' @ m @ [NL]\<rparr>)"
    by (simp add: run_ssh_command_def try_block_exec_raises call_def print_stderr_def)
  have c: "connect client h 22 u pw 30 = Returns ()
        \<and> exec_command client (escalate sudo pw cmd) 120 sudo = Returns chan
        \<and> (stdout_read chan = Raises (Exception m)
            \<or> (stdout_read chan = Returns out \<and> stderr_read chan = Raises (Exception m))) \<longrightarrow>
      run_ssh_command client h u pw cmd sudo w =
        (Inr 1, w\<lparr>events := events w @ [Connect h 22 u pw 30,
                                           ExecCommand (escalate sudo pw cmd) 120 sudo, Close],
                  sys_stderr := sys_stderr w @ ''Error: '' @ m @ [NL]\<rparr>)"
  proof
    assume p: "connect client h 22 u pw 30 = Returns ()
        \<and> exec_command client (escalate sudo pw cmd) 120 sudo = Returns chan
        \<and> (stdout_read chan = Raises (Exception m)
            \<or> (stdout_read chan = Returns out \<and> stderr_read chan = Raises (Exception m)))"
    then have "try_block client h u pw cmd sudo w =
       (Inl (Exception m),
        call (ExecCommand (escalate sudo pw cmd) 120 sudo) (call (Connect h 22 u pw 30) w))"
      by (intro try_block_read_raises [where chan = chan and out = out]) simp_all
    then show "run_ssh_command client h u pw cmd sudo w =
        (Inr 1, w\<lparr>events := events w @ [Connect h 22 u pw 30,
                                           ExecCommand (escalate sudo pw cmd) 120 sudo, Close],
                  sys_stderr := sys_stderr w @ ''Error: '' @ m @ [NL]\<rparr>)"
      by (simp add: run_ssh_command_def call_def print_stderr_def)
  qed
  have d: "connect client h 22 u pw 30 = Returns ()
        \<and> exec_command client (escalate sudo pw cmd) 120 sudo = Returns chan
        \<and> stdout_read chan = Returns out
        \<and> stderr_read chan = Returns err
        \<and> recv_exit_status chan = Raises (Exception m) \<longrightarrow>
      run_ssh_command client h u pw cmd sudo w =
        (Inr 1, w\<lparr>events := events w @ [Connect h 22 u pw 30,
                                           ExecCommand (escalate sudo pw cmd) 120 sudo, Close],
                  sys_stdout := sys_stdout w @
                    (if out = [] then [] else str_join [NL] (sudo_filtered out) @ [NL]),
                  sys_stderr := sys_stderr w @
                    (if err = [] \<or> sudo_filtered err = [] then []
                     else str_join [NL] (sudo_filtered err) @ [NL]) @
                    ''Error: '' @ m @ [NL]\<rparr>)"
  proof
    assume p: "connect client h 22 u pw 30 = Returns ()
        \<and> exec_command client (escalate sudo pw cmd) 120 sudo = Returns chan
        \<and> stdout_read chan = Returns out
        \<and> stderr_read chan = Returns err
        \<and> recv_exit_status chan = Raises (Exception m)"
    then have "try_block client h u pw cmd sudo w =
       (Inl (Exception m), report_error err (report_output out
          (call (ExecCommand (escalate sudo pw cmd) 120 sudo) (call (Connect h 22 u pw 30) w))))"
      by (intro try_block_status_raises [where chan = chan]) simp_all
    then show "run_ssh_command client h u pw cmd sudo w =
        (Inr 1, w\<lparr>events := events w @ [Connect h 22 u pw 30,
                                           ExecCommand (escalate sudo pw cmd) 120 sudo, Close],
                  sys_stdout := sys_stdout w @
                    (if out = [] then [] else str_join [NL] (sudo_filtered out) @ [NL]),
                  sys_stderr := sys_stderr w @
                    (if err = [] \<or> sudo_filtered err = [] then []
                     else str_join [NL] (sudo_filtered err) @ [NL]) @
                    ''Error: '' @ m @ [NL]\<rparr>)"
      by (simp add: run_ssh_command_def call_def print_stderr_def print_stdout_def
            report_output_def report_error_def Let_def)
  qed
  have e: "NL \<notin> set m \<longrightarrow> str_split NL (''Error: '' @ m @ [NL]) = [''Error: '' @ m, []]"
    using str_split_terminated [of NL "''Error: '' @ m"] by simp
  from a b c d e show ?thesis by blast
qed

theorem exception_reported_witness:
  "run_ssh_command unreachable_client HOST USER PASS ''ls'' False empty_world =
     (Inr 1, \<lparr>events = [Connect HOST 22 USER PASS 30, Close],
              sys_stdout = [], sys_stderr = ''Error: timed out'' @ [NL]\<rparr>)
   \<and> run_ssh_command stalled_client HOST USER PASS ''sleep 300'' False empty_world =
     (Inr 1, \<lparr>events = [Connect HOST 22 USER PASS 30, ExecCommand ''sleep 300'' 120 False, Close],
              sys_stdout = [], sys_stderr = ''Error: timed out'' @ [NL]\<rparr>)
   \<and> run_ssh_command broken_stdout_client HOST USER PASS ''ls'' False empty_world =
     (Inr 1, \<lparr>events = [Connect HOST 22 USER PASS 30, ExecCommand ''ls'' 120 False, Close],
              sys_stdout = [], sys_stderr = ''Error: timed out'' @ [NL]\<rparr>)
   \<and> run_ssh_command broken_stderr_client HOST USER PASS ''ls'' False empty_world =
     (Inr 1, \<lparr>events = [Connect HOST 22 USER PASS 30, ExecCommand ''ls'' 120 False, Close],
              sys_stdout = [], sys_stderr = ''Error: timed out'' @ [NL]\<rparr>)
   \<and> run_ssh_command lost_status_client HOST USER PASS ''ls'' False empty_world =
     (Inr 1, \<lparr>events = [Connect HOST 22 USER PASS 30, ExecCommand ''ls'' 120 False, Close],
              sys_stdout = ''a.txt'' @ [NL],
              sys_stderr = ''warning'' @ [NL] @ ''Error: Channel closed.'' @ [NL]\<rparr>)
   \<and> str_split NL (''Error: timed out'' @ [NL]) = [''Error: timed out'', []]"
proof -
  have f: "sudo_filtered ''a.txt'' = [''a.txt'']" "sudo_filtered ''warning'' = [''warning'']"
    by (simp_all add: sudo_filtered_def startswith_def)
  have 1: "run_ssh_command unreachable_client HOST USER PASS ''ls'' False empty_world =
     (Inr 1, \<lparr>events = [Connect HOST 22 USER PASS 30, Close],
              sys_stdout = [], sys_stderr = ''Error: timed out'' @ [NL]\<rparr>)"
    using exception_reported [where client = unreachable_client and h = HOST and u = USER
        and pw = PASS and cmd = "''ls''" and sudo = False and w = empty_world
        and m = "''timed out''"]
    by (simp add: unreachable_client_def empty_world_def)
  have 2: "run_ssh_command stalled_client HOST USER PASS ''sleep 300'' False empty_world =
     (Inr 1, \<lparr>events = [Connect HOST 22 USER PASS 30, ExecCommand ''sleep 300'' 120 False, Close],
              sys_stdout = [], sys_stderr = ''Error: timed out'' @ [NL]\<rparr>)"
    using exception_reported [where client = stalled_client and h = HOST and u = USER
        and pw = PASS and cmd = "''sleep 300''" and sudo = False and w = empty_world
        and m = "''timed out''"]
    by (simp add: stalled_client_def empty_world_def escalate_def)
  have 3: "run_ssh_command broken_stdout_client HOST USER PASS ''ls'' False empty_world =
     (Inr 1, \<lparr>events = [Connect HOST 22 USER PASS 30, ExecCommand ''ls'' 120 False, Close],
              sys_stdout = [], sys_stderr = ''Error: timed out'' @ [NL]\<rparr>)"
    using exception_reported [where client = broken_stdout_client and h = HOST and u = USER
        and pw = PASS and cmd = "''ls''" and sudo = False and w = empty_world
        and m = "''timed out''"
        and chan = "\<lparr>stdout_read = Raises (Exception ''timed out''),
                      stderr_read = Returns ''warning'',
                      recv_exit_status = Returns 0\<rparr>"]
    by (simp add: broken_stdout_client_def empty_world_def escalate_def)
  have 4: "run_ssh_command broken_stderr_client HOST USER PASS ''ls'' False empty_world =
     (Inr 1, \<lparr>events = [Connect HOST 22 USER PASS 30, ExecCommand ''ls'' 120 False, Close],
              sys_stdout = [], sys_stderr = ''Error: timed out'' @ [NL]\<rparr>)"
    using exception_reported [where client = broken_stderr_client and h = HOST and u = USER
        and pw = PASS and cmd = "''ls''" and sudo = False and w = empty_world
        and m = "''timed out''" and out = "''a.txt''"
        and chan = "\<lparr>stdout_read = Returns ''a.txt'',
                      stderr_read = Raises (Exception ''timed out''),
                      recv_exit_status = Returns 0\<rparr>"]
    by (simp add: broken_stderr_client_def empty_world_def escalate_def)
  have 5: "run_ssh_command lost_status_client HOST USER PASS ''ls'' False empty_world =
     (Inr 1, \<lparr>events = [Connect HOST 22 USER PASS 30, ExecCommand ''ls'' 120 False, Close],
              sys_stdout = ''a.txt'' @ [NL],
              sys_stderr = ''warning'' @ [NL] @ ''Error: Channel closed.'' @ [NL]\<rparr>)"
    using exception_reported [where client = lost_status_client and h = HOST and u = USER
        and pw = PASS and cmd = "''ls''" and sudo = False and w = empty_world
        and m = "''Channel closed.''" and out = "''a.txt''" and err = "''warning''"
        and chan = "\<lparr>stdout_read = Returns ''a.txt'',
                      stderr_read = Returns ''warning'',
                      recv_exit_status = Raises (Exception ''Channel closed.'')\<rparr>"]
    by (simp add: lost_status_client_def empty_world_def escalate_def f)
  have 6: "str_split NL (''Error: timed out'' @ [NL]) = [''Error: timed out'', []]"
    using exception_reported [where m = "''timed out''"] by simp
  from 1 2 3 4 5 6 show ?thesis by blast
qed

text \<open>
  Claim C5 as stated, with exactly one line written for every failure, fails for an
  exception whose description has a line break: the description is printed as it is, and
  only the first of the two lines written begins with \<^verbatim>\<open>Error:\<close>.
\<close>

theorem error_lines_counterexample:
  "connect multiline_client HOST 22 USER PASS 30 = Raises (Exception (''line1'' @ [NL] @ ''line2''))
   \<and> fst (run_ssh_command multiline_client HOST USER PASS ''ls'' False empty_world) = Inr 1
   \<and> str_split NL (written_stderr empty_world
         (snd (run_ssh_command multiline_client HOST USER PASS ''ls'' False empty_world))) =
       [''Error: line1'', ''line2'', []]"
  by (simp add: multiline_client_def run_ssh_command_def try_block_def call_def
        print_stderr_def written_stderr_def empty_world_def)

section \<open>Reporting the captured streams\<close>

lemma str_join_snoc_empty:
  "ls \<noteq> [] \<Longrightarrow> str_join sep (ls @ [[]]) = str_join sep ls @ sep"
  by (induction sep ls rule: str_join.induct) auto

lemma str_split_join_terminated:
  assumes "ls \<noteq> []" and "\<forall>l\<in>set ls. sep \<notin> set l"
  shows "str_split sep (str_join [sep] ls @ [sep]) = ls @ [[]]"
proof -
  have "str_split sep (str_join [sep] (ls @ [[]])) = ls @ [[]]"
    using assms by (intro str_split_join) auto
  then show ?thesis
    using assms(1) by (simp add: str_join_snoc_empty)
qed

lemma printed_lines:
  "str_split NL (str_join [NL] (sudo_filtered s) @ [NL]) =
     (if sudo_filtered s = [] then [[], []] else sudo_filtered s @ [[]])"
proof (cases "sudo_filtered s = []")
  case True
  then show ?thesis by simp
next
  case False
  then show ?thesis
    using str_split_join_terminated [of "sudo_filtered s" NL] sudo_filtered_no_NL
    by auto
qed

lemma printed_lines_no_prompt:
  "l \<in> set (str_split NL (str_join [NL] (sudo_filtered s) @ [NL])) \<Longrightarrow>
     \<not> startswith l ''[sudo]''"
  by (auto simp: printed_lines startswith_def dest: sudo_filtered_no_prompt split: if_splits)

lemma run_ssh_command_returns:
  assumes "connect client h 22 u pw 30 = Returns ()"
    and "exec_command client (escalate sudo pw cmd) 120 sudo = Returns chan"
    and "stdout_read chan = Returns out"
    and "stderr_read chan = Returns err"
    and "recv_exit_status chan = Returns status"
  shows "run_ssh_command client h u pw cmd sudo w =
    (Inr status,
     call Close (report_error err (report_output out
       (call (ExecCommand (escalate sudo pw cmd) 120 sudo) (call (Connect h 22 u pw 30) w)))))"
  using assms by (simp add: run_ssh_command_def try_block_def collect_def Let_def)

lemma written_on_return:
  assumes "connect client h 22 u pw 30 = Returns ()"
    and "exec_command client (escalate sudo pw cmd) 120 sudo = Returns chan"
    and "stdout_read chan = Returns out"
    and "stderr_read chan = Returns err"
    and "recv_exit_status chan = Returns status"
  shows "written_stdout w (snd (run_ssh_command client h u pw cmd sudo w)) =
           (if out = [] then [] else str_join [NL] (sudo_filtered out) @ [NL])"
    and "written_stderr w (snd (run_ssh_command client h u pw cmd sudo w)) =
           (if err = [] \<or> sudo_filtered err = [] then []
            else str_join [NL] (sudo_filtered err) @ [NL])"
  using run_ssh_command_returns [OF assms]
  by (simp_all add: written_stdout_def written_stderr_def call_def
        report_output_fields report_error_fields)

text \<open>
  Claim C3. When both streams have been captured and the remote status is returned, no
  line of the text written to the normal output and no line of the text written to the
  error channel begins with \<^verbatim>\<open>[sudo]\<close>; and where a captured stream is not empty and
  some line of it survives, the lines written are exactly the lines of the captured stream
  that do not begin with \<^verbatim>\<open>[sudo]\<close>, in their original order, followed by the end of
  the last line that \<^verbatim>\<open>print\<close> adds.
\<close>

theorem prompts_filtered:
  assumes "connect client h 22 u pw 30 = Returns ()"
    and "exec_command client (escalate sudo pw cmd) 120 sudo = Returns chan"
    and "stdout_read chan = Returns out"
    and "stderr_read chan = Returns err"
    and "recv_exit_status chan = Returns status"
  shows "(\<forall>l \<in> set (str_split NL (written_stdout w (snd (run_ssh_command client h u pw cmd sudo w)))).
            \<not> startswith l ''[sudo]'')
    \<and> (\<forall>l \<in> set (str_split NL (written_stderr w (snd (run_ssh_command client h u pw cmd sudo w)))).
            \<not> startswith l ''[sudo]'')
    \<and> (out \<noteq> [] \<and> sudo_filtered out \<noteq> [] \<longrightarrow>
          str_split NL (written_stdout w (snd (run_ssh_command client h u pw cmd sudo w))) =
            [l \<leftarrow> str_split NL out. \<not> startswith l ''[sudo]''] @ [[]])
    \<and> (err \<noteq> [] \<and> sudo_filtered err \<noteq> [] \<longrightarrow>
          str_split NL (written_stderr w (snd (run_ssh_command client h u pw cmd sudo w))) =
            [l \<leftarrow> str_split NL err. \<not> startswith l ''[sudo]''] @ [[]])"
proof -
  note wr = written_on_return [OF assms, of w]
  have empty: "\<not> startswith [] ''[sudo]''"
    by (simp add: startswith_def)
  have a: "\<forall>l \<in> set (str_split NL (written_stdout w (snd (run_ssh_command client h u pw cmd sudo w)))).
            \<not> startswith l ''[sudo]''"
    using printed_lines_no_prompt [of _ out] empty by (auto simp: wr(1))
  have b: "\<forall>l \<in> set (str_split NL (written_stderr w (snd (run_ssh_command client h u pw cmd sudo w)))).
            \<not> startswith l ''[sudo]''"
    using printed_lines_no_prompt [of _ err] empty by (auto simp: wr(2))
  have c: "out \<noteq> [] \<and> sudo_filtered out \<noteq> [] \<longrightarrow>
          str_split NL (written_stdout w (snd (run_ssh_command client h u pw cmd sudo w))) =
            [l \<leftarrow> str_split NL out. \<not> startswith l ''[sudo]''] @ [[]]"
    by (simp add: wr(1) printed_lines) (simp add: sudo_filtered_def)
  have d: "err \<noteq> [] \<and> sudo_filtered err \<noteq> [] \<longrightarrow>
          str_split NL (written_stderr w (snd (run_ssh_command client h u pw cmd sudo w))) =
            [l \<leftarrow> str_split NL err. \<not> startswith l ''[sudo]''] @ [[]]"
    by (simp add: wr(2) printed_lines) (simp add: sudo_filtered_def)
  from a b c d show ?thesis by blast
qed

theorem prompts_filtered_witness:
  "sudo_filtered (''a.txt'' @ [NL] @ ''[sudo] x'' @ [NL] @ ''b.txt'') = [''a.txt'', ''b.txt'']
   \<and> sudo_filtered (''[sudo] y'' @ [NL] @ ''ls: cannot access'') = [''ls: cannot access'']
   \<and> str_split NL (written_stdout empty_world
         (snd (run_ssh_command noisy_client HOST USER PASS ''ls /tmp'' False empty_world))) =
       [''a.txt'', ''b.txt'', []]
   \<and> str_split NL (written_stderr empty_world
         (snd (run_ssh_command noisy_client HOST USER PASS ''ls /tmp'' False empty_world))) =
       [''ls: cannot access'', []]
   \<and> \<not> startswith ''a.txt'' ''[sudo]''
   \<and> \<not> startswith ''ls: cannot access'' ''[sudo]''"
proof -
  let ?chan = "\<lparr>stdout_read = Returns (''a.txt'' @ [NL] @ ''[sudo] x'' @ [NL] @ ''b.txt''),
                stderr_read = Returns (''[sudo] y'' @ [NL] @ ''ls: cannot access''),
                recv_exit_status = Returns 2\<rparr>"
  have p1: "connect noisy_client HOST 22 USER PASS 30 = Returns ()"
    by (simp add: noisy_client_def)
  have p2: "exec_command noisy_client (escalate False PASS ''ls /tmp'') 120 False = Returns ?chan"
    by (simp add: noisy_client_def)
  have p3: "stdout_read ?chan = Returns (''a.txt'' @ [NL] @ ''[sudo] x'' @ [NL] @ ''b.txt'')"
    by simp
  have p4: "stderr_read ?chan = Returns (''[sudo] y'' @ [NL] @ ''ls: cannot access'')"
    by simp
  have p5: "recv_exit_status ?chan = Returns 2"
    by simp
  have so: "sudo_filtered (''a.txt'' @ [NL] @ ''[sudo] x'' @ [NL] @ ''b.txt'') = [''a.txt'', ''b.txt'']"
    by (simp add: sudo_filtered_def startswith_def)
  have se: "sudo_filtered (''[sudo] y'' @ [NL] @ ''ls: cannot access'') = [''ls: cannot access'']"
    by (simp add: sudo_filtered_def startswith_def)
  have sp: "[l \<leftarrow> str_split NL (''a.txt'' @ [NL] @ ''[sudo] x'' @ [NL] @ ''b.txt'').
              \<not> startswith l ''[sudo]''] = [''a.txt'', ''b.txt'']"
    using so by (simp only: sudo_filtered_def)
  have sq: "[l \<leftarrow> str_split NL (''[sudo] y'' @ [NL] @ ''ls: cannot access'').
              \<not> startswith l ''[sudo]''] = [''ls: cannot access'']"
    using se by (simp only: sudo_filtered_def)
  note T = prompts_filtered [OF p1 p2 p3 p4 p5, of empty_world]
  from T have o: "str_split NL (written_stdout empty_world
         (snd (run_ssh_command noisy_client HOST USER PASS ''ls /tmp'' False empty_world))) =
       [''a.txt'', ''b.txt'', []]"
    by (simp only: so sp) simp
  from T have e: "str_split NL (written_stderr empty_world
         (snd (run_ssh_command noisy_client HOST USER PASS ''ls /tmp'' False empty_world))) =
       [''ls: cannot access'', []]"
    by (simp only: se sq) simp
  from T o have n1: "\<not> startswith ''a.txt'' ''[sudo]''"
    by simp
  from T e have n2: "\<not> startswith ''ls: cannot access'' ''[sudo]''"
    by simp
  from so se o e n1 n2 show ?thesis by blast
qed

text \<open>
  What the two \<^verbatim>\<open>if\<close> blocks emit when both streams have been captured and the remote
  status is returned: something is written to the normal output if and only if the
  captured standard output is not empty, and it is then the filtered text and a newline;
  something is written to the error channel if and only if the captured standard error is
  not empty and at least one of its lines survives the filter, and it is then the filtered
  text and a newline. A captured standard error whose lines all begin with
  \<^verbatim>\<open>[sudo]\<close> leaves the error channel untouched.
\<close>

lemma streams_emitted:
  assumes "connect client h 22 u pw 30 = Returns ()"
    and "exec_command client (escalate sudo pw cmd) 120 sudo = Returns chan"
    and "stdout_read chan = Returns out"
    and "stderr_read chan = Returns err"
    and "recv_exit_status chan = Returns status"
  shows "(written_stdout w (snd (run_ssh_command client h u pw cmd sudo w)) \<noteq> [] \<longleftrightarrow> out \<noteq> [])
    \<and> (out \<noteq> [] \<longrightarrow>
          written_stdout w (snd (run_ssh_command client h u pw cmd sudo w)) =
            str_join [NL] (sudo_filtered out) @ [NL])
    \<and> (written_stderr w (snd (run_ssh_command client h u pw cmd sudo w)) \<noteq> [] \<longleftrightarrow>
          err \<noteq> [] \<and> sudo_filtered err \<noteq> [])
    \<and> (err \<noteq> [] \<and> sudo_filtered err \<noteq> [] \<longrightarrow>
          written_stderr w (snd (run_ssh_command client h u pw cmd sudo w)) =
            str_join [NL] (sudo_filtered err) @ [NL])
    \<and> ((\<forall>l \<in> set (str_split NL err). startswith l ''[sudo]'') \<longrightarrow>
          written_stderr w (snd (run_ssh_command client h u pw cmd sudo w)) = [])"
proof -
  note wr = written_on_return [OF assms, of w]
  have "(\<forall>l \<in> set (str_split NL err). startswith l ''[sudo]'') \<longrightarrow> sudo_filtered err = []"
    by (simp add: sudo_filtered_def)
  then show ?thesis
    by (simp add: wr)
qed

lemma streams_emitted_example:
  "written_stdout empty_world
     (snd (run_ssh_command listing_client HOST USER PASS ''ls'' True empty_world)) =
     ''a.txt'' @ [NL] @ ''b.txt'' @ [NL]
   \<and> str_split NL (''[sudo] password for admin: '' @ [NL] @ ''[sudo] try again'') =
       [''[sudo] password for admin: '', ''[sudo] try again'']
   \<and> startswith ''[sudo] password for admin: '' ''[sudo]''
   \<and> startswith ''[sudo] try again'' ''[sudo]''
   \<and> written_stderr empty_world
       (snd (run_ssh_command listing_client HOST USER PASS ''ls'' True empty_world)) = []"
proof -
  let ?out = "''[sudo] password for admin: '' @ [NL] @ ''a.txt'' @ [NL] @ ''b.txt''"
  let ?err = "''[sudo] password for admin: '' @ [NL] @ ''[sudo] try again''"
  let ?chan = "\<lparr>stdout_read = Returns ?out, stderr_read = Returns ?err,
                recv_exit_status = Returns 0\<rparr>"
  have p1: "connect listing_client HOST 22 USER PASS 30 = Returns ()"
    by (simp add: listing_client_def)
  have p2: "exec_command listing_client (escalate True PASS ''ls'') 120 True = Returns ?chan"
    by (simp add: listing_client_def)
  have p3: "stdout_read ?chan = Returns ?out" by simp
  have p4: "stderr_read ?chan = Returns ?err" by simp
  have p5: "recv_exit_status ?chan = Returns 0" by simp
  have so: "sudo_filtered ?out = [''a.txt'', ''b.txt'']"
    by (simp add: sudo_filtered_def startswith_def)
  have sp: "str_split NL ?err = [''[sudo] password for admin: '', ''[sudo] try again'']"
    by simp
  have s1: "startswith ''[sudo] password for admin: '' ''[sudo]''"
    by (simp add: startswith_def)
  have s2: "startswith ''[sudo] try again'' ''[sudo]''"
    by (simp add: startswith_def)
  have all: "\<forall>l \<in> set (str_split NL ?err). startswith l ''[sudo]''"
    using s1 s2 by (simp only: sp) simp
  note T = streams_emitted [OF p1 p2 p3 p4 p5, of empty_world]
  have ne: "?out \<noteq> []"
    by simp
  from T have "?out \<noteq> [] \<longrightarrow> written_stdout empty_world
     (snd (run_ssh_command listing_client HOST USER PASS ''ls'' True empty_world)) =
     str_join [NL] (sudo_filtered ?out) @ [NL]"
    by blast
  with ne have "written_stdout empty_world
     (snd (run_ssh_command listing_client HOST USER PASS ''ls'' True empty_world)) =
     str_join [NL] (sudo_filtered ?out) @ [NL]"
    by blast
  then have o: "written_stdout empty_world
     (snd (run_ssh_command listing_client HOST USER PASS ''ls'' True empty_world)) =
     ''a.txt'' @ [NL] @ ''b.txt'' @ [NL]"
    by (simp only: so) simp
  from T all have e: "written_stderr empty_world
       (snd (run_ssh_command listing_client HOST USER PASS ''ls'' True empty_world)) = []"
    by blast
  from o sp s1 s2 e show ?thesis by blast
qed

text \<open>
  Claim C4. The filtered standard output is to be written to the normal output if and only
  if it is not empty, and the filtered standard error to the error channel if and only if
  it is not empty after filtering, so that a stream of prompts alone writes nothing. The
  error branch has the guard \<^verbatim>\<open>if lines:\<close> for this; the output branch has none and tests
  the captured text only. Where the captured standard output is a lone prompt, the
  filtered text is empty and \<^verbatim>\<open>print\<close> still writes a newline to the normal output.
\<close>

theorem lone_prompt_blank_line:
  "str_join [NL] (sudo_filtered ''[sudo] password for admin: '') = []
   \<and> written_stdout empty_world
       (snd (run_ssh_command prompt_client HOST USER PASS ''true'' True empty_world)) = [NL]"
proof -
  have f: "sudo_filtered ''[sudo] password for admin: '' = []"
    by (simp add: sudo_filtered_def startswith_def)
  have "run_ssh_command prompt_client HOST USER PASS ''true'' True empty_world =
    (Inr 0,
     call Close (report_error (''[sudo] password for admin: '' @ [NL])
       (report_output ''[sudo] password for admin: ''
         (call (ExecCommand (escalate True PASS ''true'') 120 True)
           (call (Connect HOST 22 USER PASS 30) empty_world)))))"
    by (rule run_ssh_command_returns
          [where chan = "\<lparr>stdout_read = Returns ''[sudo] password for admin: '',
                          stderr_read = Returns (''[sudo] password for admin: '' @ [NL]),
                          recv_exit_status = Returns 0\<rparr>"])
       (simp_all add: prompt_client_def)
  then have "written_stdout empty_world
         (snd (run_ssh_command prompt_client HOST USER PASS ''true'' True empty_world)) = [NL]"
    by (simp add: written_stdout_def call_def report_output_fields report_error_fields f
          empty_world_def)
  then show ?thesis
    by (simp add: f)
qed

text \<open>
  The guard \<^verbatim>\<open>if lines:\<close> of the error branch tests the list of surviving lines: a
  prompt followed by a newline leaves one empty line, which is printed.
\<close>

lemma stderr_blank_line_example:
  "str_join [NL] (sudo_filtered (''[sudo] password for admin: '' @ [NL])) = []
   \<and> written_stderr empty_world
       (snd (run_ssh_command prompt_client HOST USER PASS ''true'' True empty_world)) = [NL]"
proof -
  have "run_ssh_command prompt_client HOST USER PASS ''true'' True empty_world =
    (Inr 0,
     call Close (report_error (''[sudo] password for admin: '' @ [NL])
       (report_output ''[sudo] password for admin: ''
         (call (ExecCommand (escalate True PASS ''true'') 120 True)
           (call (Connect HOST 22 USER PASS 30) empty_world)))))"
    by (rule run_ssh_command_returns
          [where chan = "\<lparr>stdout_read = Returns ''[sudo] password for admin: '',
                          stderr_read = Returns (''[sudo] password for admin: '' @ [NL]),
                          recv_exit_status = Returns 0\<rparr>"])
       (simp_all add: prompt_client_def)
  then have "written_stderr empty_world
         (snd (run_ssh_command prompt_client HOST USER PASS ''true'' True empty_world)) = [NL]"
    by (simp add: written_stderr_def call_def report_output_fields report_error_fields
          empty_world_def sudo_filtered_def startswith_def)
  then show ?thesis
    by (simp add: sudo_filtered_def startswith_def)
qed

section \<open>The command line\<close>

text \<open>
  Claim C8, as the code has it. When \<^verbatim>\<open>sys.argv\<close> holds no argument at all, the
  program prints the usage message to the normal output, writes nothing to the error
  channel, makes no call on the client, and exits with status 1.
\<close>

theorem usage_on_no_arguments:
  assumes "length argv < 2"
  shows "main client argv w =
    (Inr 1, w\<lparr>sys_stdout := sys_stdout w @ ''Usage: python ssh_cmd.py [--sudo] <command>'' @ [NL]\<rparr>)"
  using assms by (simp add: main_def print_stdout_def)

theorem usage_on_no_arguments_witness:
  "length [''ssh_cmd.py''] < 2
   \<and> main listing_client [''ssh_cmd.py''] empty_world =
      (Inr 1, \<lparr>events = [],
               sys_stdout = ''Usage: python ssh_cmd.py [--sudo] <command>'' @ [NL],
               sys_stderr = []\<rparr>)"
proof -
  have l: "length [''ssh_cmd.py''] < 2"
    by simp
  show ?thesis
    using l usage_on_no_arguments [OF l, of listing_client empty_world]
    by (simp add: empty_world_def)
qed

text \<open>
  Claim C8 as stated, with the usage message on the error channel, fails on the empty
  argument list: the error channel stays empty and the message is on the normal output.
\<close>

theorem usage_counterexample:
  "sys_stderr (snd (main listing_client [''ssh_cmd.py''] empty_world)) = []
   \<and> sys_stdout (snd (main listing_client [''ssh_cmd.py''] empty_world)) =
       ''Usage: python ssh_cmd.py [--sudo] <command>'' @ [NL]"
  by (simp add: main_def print_stdout_def empty_world_def)

text \<open>
  The test \<^verbatim>\<open>len(sys.argv) < 2\<close> precedes the removal of \<^verbatim>\<open>--sudo\<close>: with
  \<^verbatim>\<open>--sudo\<close> as the only argument the runner is called, with the empty command.
\<close>

lemma main_only_sudo_runs:
  "[a \<leftarrow> [''--sudo'']. a \<noteq> ''--sudo''] = []
   \<and> main client [''ssh_cmd.py'', ''--sudo''] w = run_ssh_command client HOST USER PASS [] True w"
  by (simp add: main_def)

text \<open>
  Claim C9, as the code has it. For every non-empty argument list \<open>args\<close> (after a program
  name other than \<^verbatim>\<open>--sudo\<close>), the runner is called with the fixed host, user and password, with the
  escalation flag set exactly when \<^verbatim>\<open>--sudo\<close> occurs among the arguments, and with the
  arguments other than \<^verbatim>\<open>--sudo\<close> joined by single spaces as the command: no occurrence
  of \<^verbatim>\<open>--sudo\<close> remains, and without \<^verbatim>\<open>--sudo\<close> the command is the join of all the
  arguments.
\<close>

theorem main_passes_command:
  assumes "args \<noteq> []" and "prog \<noteq> ''--sudo''"
  shows "main client (prog # args) w =
      run_ssh_command client HOST USER PASS
        (str_join '' '' [a \<leftarrow> args. a \<noteq> ''--sudo'']) (''--sudo'' \<in> set args) w
    \<and> ''--sudo'' \<notin> set [a \<leftarrow> args. a \<noteq> ''--sudo'']
    \<and> (''--sudo'' \<notin> set args \<longrightarrow> [a \<leftarrow> args. a \<noteq> ''--sudo''] = args)"
proof -
  have "\<not> length (prog # args) < 2"
    using assms(1) by (cases args) simp_all
  then have "main client (prog # args) w =
      run_ssh_command client HOST USER PASS
        (str_join '' '' [a \<leftarrow> args. a \<noteq> ''--sudo'']) (''--sudo'' \<in> set (prog # args)) w"
    by (simp only: main_def Let_def if_False drop_Suc_Cons drop_0 One_nat_def)
  moreover have "''--sudo'' \<in> set (prog # args) \<longleftrightarrow> ''--sudo'' \<in> set args"
    using assms(2) by auto
  moreover have "''--sudo'' \<notin> set args \<longrightarrow> [a \<leftarrow> args. a \<noteq> ''--sudo''] = args"
    by (auto simp: filter_id_conv)
  ultimately show ?thesis
    by simp
qed

theorem main_passes_command_witness:
  "main stalled_client [''ssh_cmd.py'', ''ls'', ''--sudo'', ''-l'', ''--sudo''] empty_world =
     run_ssh_command stalled_client HOST USER PASS ''ls -l'' True empty_world
   \<and> main stalled_client [''ssh_cmd.py'', ''ls'', ''-l''] empty_world =
     run_ssh_command stalled_client HOST USER PASS ''ls -l'' False empty_world"
proof -
  have a: "[''ls'', ''--sudo'', ''-l'', ''--sudo''] \<noteq> []" and b: "[''ls'', ''-l''] \<noteq> []"
    and p: "''ssh_cmd.py'' \<noteq> ''--sudo''"
    by simp_all
  have "main stalled_client [''ssh_cmd.py'', ''ls'', ''--sudo'', ''-l'', ''--sudo''] empty_world =
     run_ssh_command stalled_client HOST USER PASS ''ls -l'' True empty_world"
    using main_passes_command [OF a p, of stalled_client empty_world] by simp
  moreover
  have "main stalled_client [''ssh_cmd.py'', ''ls'', ''-l''] empty_world =
     run_ssh_command stalled_client HOST USER PASS ''ls -l'' False empty_world"
    using main_passes_command [OF b p, of stalled_client empty_world] by simp
  ultimately show ?thesis
    by blast
qed

text \<open>
  Claim C9 as stated, for every argument list, fails in two places. Line 47 tests
  \<^verbatim>\<open>"--sudo" in sys.argv\<close>, program name included, while line 48 filters
  \<^verbatim>\<open>sys.argv[1:]\<close>: under the program name \<^verbatim>\<open>--sudo\<close> the command \<^verbatim>\<open>ls\<close> is escalated
  although \<^verbatim>\<open>--sudo\<close> is not among the arguments. And with no argument at all no command
  is passed to the runner: the usage message is printed and no call is made.
\<close>

theorem sudo_flag_counterexample:
  "''--sudo'' \<notin> set [''ls'']
   \<and> filter is_ExecCommand (events (snd (main prompt_client [''--sudo'', ''ls''] empty_world))) =
       [ExecCommand ''echo 'admin' | sudo -S ls'' 120 True]
   \<and> main prompt_client [''ssh_cmd.py''] empty_world =
       (Inr 1, \<lparr>events = [],
                sys_stdout = ''Usage: python ssh_cmd.py [--sudo] <command>'' @ [NL],
                sys_stderr = []\<rparr>)"
proof -
  have "main prompt_client [''--sudo'', ''ls''] empty_world =
      run_ssh_command prompt_client HOST USER PASS ''ls'' True empty_world"
    by (simp add: main_def)
  then have "filter is_ExecCommand (events (snd (main prompt_client [''--sudo'', ''ls''] empty_world))) =
       [ExecCommand ''echo 'admin' | sudo -S ls'' 120 True]"
    by (simp add: events_run_full escalate_def prompt_client_def empty_world_def PASS_def)
  moreover have "main prompt_client [''ssh_cmd.py''] empty_world =
       (Inr 1, \<lparr>events = [],
                sys_stdout = ''Usage: python ssh_cmd.py [--sudo] <command>'' @ [NL],
                sys_stderr = []\<rparr>)"
    by (simp add: main_def print_stdout_def empty_world_def)
  ultimately show ?thesis
    by simp
qed

section \<open>Properties of the prompt filter\<close>

text \<open>
  Claim C10. The prompt filter is idempotent: for every text \<open>s\<close>, splitting \<open>s\<close> at
  newlines, discarding the lines that begin with \<^verbatim>\<open>[sudo]\<close> and joining the rest with
  newlines gives a text on which the same transformation changes nothing.
\<close>

theorem filter_idempotent:
  "str_join [NL] (sudo_filtered (str_join [NL] (sudo_filtered s))) = str_join [NL] (sudo_filtered s)"
  by (simp add: sudo_filtered_join)

end
